theory Spec2Isabelle
  imports Complex_Main "HOL-Library.Sublist" "HOL-Library.List_Lexorder"
begin

section \<open>Strings\<close>

text \<open>
  A Python \<open>str\<close> is a sequence of Unicode code points, so it is a list of naturals here.
  \<open>str\<close> turns an Isabelle literal into such a string; a \<open>char\<close> is a byte, whose value is
  the code point of the same Latin-1 character (\<open>CHR 0xE2\<close> is a with circumflex).
\<close>

type_synonym pystr = "nat list"

definition str :: "string \<Rightarrow> pystr" where
  "str s = map of_char s"

text \<open>\<open>sub in s\<close> for strings: \<open>sub\<close> occurs in \<open>s\<close> as a contiguous block.\<close>

fun contem :: "pystr \<Rightarrow> pystr \<Rightarrow> bool" where
  "contem sub [] = (sub = [])"
| "contem sub (c # cs) = (prefix sub (c # cs) \<or> contem sub cs)"

text \<open>\<open>sep.join(parts)\<close>.\<close>

fun join :: "pystr \<Rightarrow> pystr list \<Rightarrow> pystr" where
  "join sep [] = []"
| "join sep [p] = p"
| "join sep (p # q # ps) = p @ sep @ join sep (q # ps)"

text \<open>
  The library functions of Python that the application calls on strings are parameters of the
  model: \<open>str.lower\<close>, \<open>str.strip\<close> and the character class \<open>\d\<close> of \<open>re\<close> (which, on
  \<open>str\<close> patterns, holds of every Unicode decimal digit). Every theorem below holds for
  all their values.
\<close>

record py =
  lower :: "pystr \<Rightarrow> pystr"
  strip :: "pystr \<Rightarrow> pystr"
  digit :: "nat \<Rightarrow> bool"

section \<open>The file classifier\<close>

text \<open>An uploaded file (werkzeug's FileStorage): its name, which may be absent, and its stream.\<close>

record upload =
  filename :: "pystr option"
  stream :: nat

text \<open>The ten keys of the dict \<open>slots\<close>, in the order in which the dict is built.\<close>

datatype slot = Pj1 | Seg | Cam | Co_ter | Co_xpvp | Cre | Xpcs | Lan_man | Tim_rep | Lan_pro

definition todas_chaves :: "slot list" where
  "todas_chaves = [Pj1, Seg, Cam, Co_ter, Co_xpvp, Cre, Xpcs, Lan_man, Tim_rep, Lan_pro]"

fun nome_chave :: "slot \<Rightarrow> pystr" where
  "nome_chave Pj1 = str ''pj1''"
| "nome_chave Seg = str ''seg''"
| "nome_chave Cam = str ''cam''"
| "nome_chave Co_ter = str ''co_ter''"
| "nome_chave Co_xpvp = str ''co_xpvp''"
| "nome_chave Cre = str ''cre''"
| "nome_chave Xpcs = str ''xpcs''"
| "nome_chave Lan_man = str ''lan_man''"
| "nome_chave Tim_rep = str ''tim_rep''"
| "nome_chave Lan_pro = str ''lan_pro''"

text \<open>The keyword literals of \<open>classificar_arquivos\<close>.\<close>

definition kw_seguro :: pystr where "kw_seguro = str ''seguro''"
definition kw_cambio_ac :: pystr where "kw_cambio_ac = str (''c'' @ [CHR 0xE2] @ ''mbio'')"
definition kw_cambio :: pystr where "kw_cambio = str ''cambio''"
definition kw_terceiras :: pystr where "kw_terceiras = str ''terceiras''"
definition kw_xpvp :: pystr where "kw_xpvp = str ''xpvp''"
definition kw_credito_ac :: pystr where "kw_credito_ac = str (''cr'' @ [CHR 0xE9] @ ''dito'')"
definition kw_credito :: pystr where "kw_credito = str ''credito''"
definition kw_xpcs :: pystr where "kw_xpcs = str ''xpcs''"
definition kw_lan_man_ac :: pystr where
  "kw_lan_man_ac = str (''lan'' @ [CHR 0xE7] @ ''amentos manuais'')"
definition kw_lan_man :: pystr where "kw_lan_man = str ''lancamentos manuais''"
definition kw_tim_rep :: pystr where "kw_tim_rep = str ''times e repasses''"
definition kw_lan_pro_ac :: pystr where
  "kw_lan_pro_ac = str (''lan'' @ [CHR 0xE7] @ ''amento de produtos'')"
definition kw_lan_pro :: pystr where "kw_lan_pro = str ''lancamento de produtos''"

text \<open>\<open>nome = (f.filename or "").lower()\<close>\<close>

definition nome_de :: "py \<Rightarrow> upload \<Rightarrow> pystr" where
  "nome_de P f = lower P (case filename f of None \<Rightarrow> [] | Some s \<Rightarrow> s)"

text \<open>The \<open>if\<close>/\<open>elif\<close> chain of the loop body: the key it calls \<open>marca\<close> with, if any.\<close>

definition chave_do_nome :: "pystr \<Rightarrow> slot option" where
  "chave_do_nome nome =
    (if contem kw_seguro nome then Some Seg
     else if contem kw_cambio_ac nome \<or> contem kw_cambio nome then Some Cam
     else if contem kw_terceiras nome then Some Co_ter
     else if contem kw_xpvp nome then Some Co_xpvp
     else if contem kw_credito_ac nome \<or> contem kw_credito nome then Some Cre
     else if contem kw_xpcs nome then Some Xpcs
     else if contem kw_lan_man_ac nome \<or> contem kw_lan_man nome then Some Lan_man
     else if contem kw_tim_rep nome then Some Tim_rep
     else if contem kw_lan_pro_ac nome \<or> contem kw_lan_pro nome then Some Lan_pro
     else None)"

text \<open>The state of the loop: the dict \<open>slots\<close> and the set \<open>usados\<close>.\<close>

record estado =
  slots :: "slot \<Rightarrow> upload option"
  usados :: "pystr set"

definition marca :: "upload \<Rightarrow> pystr \<Rightarrow> slot \<Rightarrow> estado \<Rightarrow> estado" where
  "marca f nome chave st =
    (if slots st chave = None
     then st\<lparr>slots := (slots st)(chave := Some f), usados := insert nome (usados st)\<rparr>
     else st)"

definition passo :: "py \<Rightarrow> upload \<Rightarrow> estado \<Rightarrow> estado" where
  "passo P f st =
    (case chave_do_nome (nome_de P f) of
       None \<Rightarrow> st
     | Some chave \<Rightarrow> marca f (nome_de P f) chave st)"

fun laco :: "py \<Rightarrow> upload list \<Rightarrow> estado \<Rightarrow> estado" where
  "laco P [] st = st"
| "laco P (f # fs) st = laco P fs (passo P f st)"

definition estado_inicial :: estado where
  "estado_inicial = \<lparr>slots = (\<lambda>_. None), usados = {}\<rparr>"

definition nao_usados :: "py \<Rightarrow> upload list \<Rightarrow> upload list" where
  "nao_usados P uploaded_files =
    filter (\<lambda>f. nome_de P f \<notin> usados (laco P uploaded_files estado_inicial)) uploaded_files"

definition classificar_arquivos :: "py \<Rightarrow> upload list \<Rightarrow> (slot \<Rightarrow> upload option) \<times> slot list" where
  "classificar_arquivos P uploaded_files =
    (let st = laco P uploaded_files estado_inicial;
         nu = nao_usados P uploaded_files;
         sl = (if nu \<noteq> [] \<and> slots st Pj1 = None
               then (slots st)(Pj1 := Some (hd nu)) else slots st);
         faltando = filter (\<lambda>k. sl k = None) todas_chaves
     in (sl, faltando))"

text \<open>
  The precedence of the keywords as the specification lists it: a table from keywords to
  slots, read from the top, the first row with a keyword occurring in the name deciding.
\<close>

definition tabela_palavras :: "(pystr list \<times> slot) list" where
  "tabela_palavras =
    [([kw_seguro], Seg),
     ([kw_cambio, kw_cambio_ac], Cam),
     ([kw_terceiras], Co_ter),
     ([kw_xpvp], Co_xpvp),
     ([kw_credito, kw_credito_ac], Cre),
     ([kw_xpcs], Xpcs),
     ([kw_lan_man_ac, kw_lan_man], Lan_man),
     ([kw_tim_rep], Tim_rep),
     ([kw_lan_pro_ac, kw_lan_pro], Lan_pro)]"

definition primeira_palavra :: "pystr \<Rightarrow> slot option" where
  "primeira_palavra nome =
    map_option snd (find (\<lambda>(kws, k). list_ex (\<lambda>kw. contem kw nome) kws) tabela_palavras)"

section \<open>Numbers and the currency format\<close>

text \<open>
  A float is modelled by its value: every finite double is a rational. The two infinities
  and NaN are values of their own. The sign of a zero is not represented.
\<close>

datatype pyfloat = Finite rat | PInf | NInf | NaN

text \<open>Rounding to the nearest integer, a tie going to the even neighbour.\<close>

definition round_half_even :: "rat \<Rightarrow> int" where
  "round_half_even x =
    (let f = \<lfloor>x\<rfloor>; d = x - of_int f
     in if d < 1 / 2 then f else if 1 / 2 < d then f + 1 else if even f then f else f + 1)"

text \<open>\<open>round(2)\<close> of numpy on one value: scale by 100, round to an integer, scale back.\<close>

fun round2 :: "pyfloat \<Rightarrow> pyfloat" where
  "round2 (Finite q) = Finite (of_int (round_half_even (q * 100)) / 100)"
| "round2 v = v"

text \<open>The decimal digits of a natural number, most significant first.\<close>

fun digitos :: "nat \<Rightarrow> pystr" where
  "digitos n = (if n < 10 then [48 + n] else digitos (n div 10) @ [48 + n mod 10])"

declare digitos.simps [simp del]

text \<open>Digits in groups of three counted from the right, with \<open>sep\<close> between the groups.\<close>

function agrupa :: "nat \<Rightarrow> pystr \<Rightarrow> pystr" where
  "agrupa sep ds =
    (if length ds \<le> 3 then ds
     else agrupa sep (take (length ds - 3) ds) @ sep # drop (length ds - 3) ds)"
  by pat_completeness auto
termination
  by (relation "measure (\<lambda>(sep, ds). length ds)") auto

declare agrupa.simps [simp del]

text \<open>
  A finite value with two decimals: the sign, the integer part grouped by \<open>milhar\<close>, the
  separator \<open>decimal\<close> and two digits. The value is rounded to the nearest hundredth, ties
  to even, as Python's float formatting does.
\<close>

definition formato :: "nat \<Rightarrow> nat \<Rightarrow> rat \<Rightarrow> pystr" where
  "formato milhar decimal q =
    (let c = nat (round_half_even (\<bar>q\<bar> * 100))
     in (if q < 0 then [45] else []) @ agrupa milhar (digitos (c div 100)) @
        [decimal, 48 + (c mod 100) div 10, 48 + c mod 10])"

text \<open>\<open>f"{x:,.2f}"\<close>: comma (44) between thousands, full stop (46) before the decimals.\<close>

fun format_2f :: "pyfloat \<Rightarrow> pystr" where
  "format_2f (Finite q) = formato 44 46 q"
| "format_2f PInf = str ''inf''"
| "format_2f NInf = str ''-inf''"
| "format_2f NaN = str ''nan''"

text \<open>\<open>s.replace(old, new)\<close> for one-character \<open>old\<close> and \<open>new\<close>.\<close>

definition replace :: "nat \<Rightarrow> nat \<Rightarrow> pystr \<Rightarrow> pystr" where
  "replace old new s = map (\<lambda>c. if c = old then new else c) s"

text \<open>\<open>.replace(",", "v").replace(".", ",").replace("v", ".")\<close>\<close>

definition troca_separadores :: "pystr \<Rightarrow> pystr" where
  "troca_separadores s = replace 118 46 (replace 46 44 (replace 44 118 s))"

definition isna :: "pyfloat \<Rightarrow> bool" where
  "isna v = (v = NaN)"

definition brl :: "pyfloat \<Rightarrow> pystr" where
  "brl valor =
    (let valor = (if isna valor then Finite 0 else valor)
     in troca_separadores (str ''R$ '' @ format_2f valor))"

section \<open>Tables\<close>

text \<open>
  A pandas DataFrame: its columns in order, each with its label. A column of a numeric dtype
  holds floats, any other column holds text. The rows are the positions of the lists.
\<close>

datatype coluna = Num "pyfloat list" | Obj "pystr list"

type_synonym dataframe = "(pystr \<times> coluna) list"

fun numerica :: "coluna \<Rightarrow> bool" where
  "numerica (Num xs) = True"
| "numerica (Obj ys) = False"

fun tamanho :: "coluna \<Rightarrow> nat" where
  "tamanho (Num xs) = length xs"
| "tamanho (Obj ys) = length ys"

text \<open>\<open>len(df)\<close>, the number of rows.\<close>

definition len_df :: "dataframe \<Rightarrow> nat" where
  "len_df df = (case df of [] \<Rightarrow> 0 | (nome, c) # resto \<Rightarrow> tamanho c)"

text \<open>\<open>df.empty\<close>: no column or no row.\<close>

definition vazio :: "dataframe \<Rightarrow> bool" where
  "vazio df = (df = [] \<or> len_df df = 0)"

text \<open>\<open>df.select_dtypes(include=["number"]).columns\<close>\<close>

definition colunas_numericas :: "dataframe \<Rightarrow> pystr list" where
  "colunas_numericas df = map fst (filter (\<lambda>(nome, c). numerica c) df)"

text \<open>\<open>round(2)\<close> on a column: a text column is left as it is.\<close>

fun round_coluna :: "coluna \<Rightarrow> coluna" where
  "round_coluna (Num xs) = Num (map round2 xs)"
| "round_coluna (Obj ys) = Obj ys"

text \<open>\<open>df[colunas_numericas] = df[colunas_numericas].round(2)\<close>, the frame after the assignment.\<close>

definition arredondar :: "dataframe \<Rightarrow> dataframe" where
  "arredondar df =
    map (\<lambda>(nome, c). if nome \<in> set (colunas_numericas df) then (nome, round_coluna c)
                     else (nome, c)) df"

text \<open>The number format of the display table: as \<open>brl\<close>, without the currency sign.\<close>

definition formato_display :: "pyfloat \<Rightarrow> pystr" where
  "formato_display x = troca_separadores (format_2f x)"

fun exibir_coluna :: "coluna \<Rightarrow> coluna" where
  "exibir_coluna (Num xs) = Obj (map formato_display xs)"
| "exibir_coluna (Obj ys) = Obj ys"

definition exibir :: "dataframe \<Rightarrow> dataframe" where
  "exibir df =
    map (\<lambda>(nome, c). if nome \<in> set (colunas_numericas df) then (nome, exibir_coluna c)
                     else (nome, c)) df"

text \<open>Comparison of two floats neither of which is NaN.\<close>

fun menor_igual :: "pyfloat \<Rightarrow> pyfloat \<Rightarrow> bool" where
  "menor_igual NInf b = True"
| "menor_igual a PInf = True"
| "menor_igual (Finite a) (Finite b) = (a \<le> b)"
| "menor_igual a b = False"

definition maior :: "pyfloat \<Rightarrow> pyfloat \<Rightarrow> pyfloat" where
  "maior a b = (if menor_igual a b then b else a)"

text \<open>\<open>Series.max()\<close>: the greatest value that is not NaN, and NaN when there is none.\<close>

definition serie_max :: "pyfloat list \<Rightarrow> pyfloat" where
  "serie_max xs =
    (case filter (\<lambda>v. v \<noteq> NaN) xs of [] \<Rightarrow> NaN | y # ys \<Rightarrow> fold maior ys y)"

text \<open>
  The values a reduction runs over: those of a numeric column. A column of text makes
  \<open>mean()\<close> raise, unless it has no row.
\<close>

fun valores :: "coluna \<Rightarrow> pyfloat list option" where
  "valores (Num xs) = Some xs"
| "valores (Obj []) = Some []"
| "valores (Obj (y # ys)) = None"

definition valor_total_assessor :: pystr where
  "valor_total_assessor = str ''Valor Total Assessor''"

section \<open>The world outside the application\<close>

text \<open>A call that may raise: it returns a value or raises.\<close>

datatype 'a resultado = Retorna 'a | Levanta

text \<open>
  The Supabase bucket as the application uses it: \<open>listar\<close> gives, for a path, the
  \<open>name\<close> entry of each item (an item may have none), or nothing when the call raises;
  \<open>baixar\<close> gives the bytes of an object (a handle to them), or nothing when the call
  raises or the bytes are empty; \<open>aceita\<close> tells whether an upload to a path succeeds.
\<close>

record bucket =
  listar :: "pystr \<Rightarrow> pystr option list option"
  baixar :: "pystr \<Rightarrow> nat option"
  aceita :: "pystr \<Rightarrow> bool"

text \<open>
  What the routes depend on besides their request: the Python library, the Supabase client
  (absent when not configured), the environment variable \<open>VERCEL\<close>, the root path of the
  application, the files that exist on disk, \<open>pd.read_excel\<close> (which may raise), the
  reconciliation engine imported from \<open>comissoes_backend\<close> (which may raise), the clock
  read through \<open>strftime("%Y%m%d_%H%M%S")\<close>, \<open>DataFrame.to_html\<close>, \<open>url_for\<close> of the
  route \<open>download_excel\<close>, and the reductions \<open>sum\<close> and \<open>mean\<close> of pandas, whose
  floating-point rounding is not modelled.
\<close>

record mundo =
  lib :: py
  supabase :: "bucket option"
  vercel :: bool
  root_path :: pystr
  existe :: "pystr \<Rightarrow> bool"
  read_excel :: "nat \<Rightarrow> dataframe option"
  calcular_comissoes :: "dataframe list \<Rightarrow> (dataframe \<times> dataframe) option"
  agora :: pystr
  to_html :: "dataframe \<Rightarrow> pystr"
  url_for_download :: "pystr \<Rightarrow> pystr"
  serie_sum :: "pyfloat list \<Rightarrow> pyfloat"
  serie_mean :: "pyfloat list \<Rightarrow> pyfloat"

subsection \<open>Regular expressions\<close>

text \<open>\<open>$\<close> without MULTILINE: the end of the string, or a newline that ends the string.\<close>

definition fim :: "pystr \<Rightarrow> bool" where
  "fim s = (s = [] \<or> s = [10])"

text \<open>\<open>\d{n}\<close> against a block of the string.\<close>

definition n_digitos :: "py \<Rightarrow> nat \<Rightarrow> pystr \<Rightarrow> bool" where
  "n_digitos P n s = (length s = n \<and> list_all (digit P) s)"

text \<open>\<open>re.match(r"^\d{4}-\d{2}$", s)\<close>\<close>

definition casa_competencia :: "py \<Rightarrow> pystr \<Rightarrow> bool" where
  "casa_competencia P s =
    (n_digitos P 4 (take 4 s) \<and> take 1 (drop 4 s) = [45] \<and>
     n_digitos P 2 (take 2 (drop 5 s)) \<and> fim (drop 7 s))"

text \<open>
  \<open>df_final_\d{8}_\d{6}\.xlsx$\<close> matched at the start of \<open>s\<close>:
  nine characters, eight digits, an underscore (95), six digits, five characters.
\<close>

definition casa_df_final :: "py \<Rightarrow> pystr \<Rightarrow> bool" where
  "casa_df_final P s =
    (take 9 s = str ''df_final_'' \<and> n_digitos P 8 (take 8 (drop 9 s)) \<and>
     take 1 (drop 17 s) = [95] \<and> n_digitos P 6 (take 6 (drop 18 s)) \<and>
     take 5 (drop 24 s) = str ''.xlsx'' \<and> fim (drop 29 s))"

text \<open>
  \<open>re.search(r"df_final_(\d{8}_\d{6})\.xlsx$", s)\<close>: the group of the leftmost match.
\<close>

fun busca_timestamp :: "py \<Rightarrow> pystr \<Rightarrow> pystr option" where
  "busca_timestamp P [] = None"
| "busca_timestamp P (c # cs) =
    (if casa_df_final P (c # cs) then Some (take 15 (drop 9 (c # cs)))
     else busca_timestamp P cs)"

text \<open>\<open>s.split(sep)\<close> for a separator of one character.\<close>

fun split :: "nat \<Rightarrow> pystr \<Rightarrow> pystr list" where
  "split sep [] = [[]]"
| "split sep (c # cs) =
    (if c = sep then [] # split sep cs
     else (case split sep cs of [] \<Rightarrow> [[c]] | p # ps \<Rightarrow> (c # p) # ps))"

subsection \<open>The bucket\<close>

definition supabase_list :: "mundo \<Rightarrow> pystr \<Rightarrow> pystr option list" where
  "supabase_list W path =
    (case supabase W of
       None \<Rightarrow> []
     | Some B \<Rightarrow> (case listar B path of None \<Rightarrow> [] | Some itens \<Rightarrow> itens))"

text \<open>\<open>it.get("name", "")\<close>\<close>

definition nome_item :: "pystr option \<Rightarrow> pystr" where
  "nome_item it = (case it of None \<Rightarrow> [] | Some nome \<Rightarrow> nome)"

text \<open>\<open>sorted(xs, reverse=True)\<close> on strings, which Python compares code point by code point.\<close>

definition sorted_reverse :: "pystr list \<Rightarrow> pystr list" where
  "sorted_reverse xs = rev (sort xs)"

definition listar_competencias :: "mundo \<Rightarrow> pystr list" where
  "listar_competencias W =
    sorted_reverse (filter (casa_competencia (lib W)) (map nome_item (supabase_list W [])))"

definition listar_df_final_por_competencia :: "mundo \<Rightarrow> pystr \<Rightarrow> pystr list" where
  "listar_df_final_por_competencia W competencia =
    sorted_reverse
      (map (\<lambda>nome. competencia @ [47] @ nome)
        (filter (casa_df_final (lib W)) (map nome_item (supabase_list W competencia))))"

definition escolher_mais_recente_df_final :: "mundo \<Rightarrow> pystr \<Rightarrow> pystr option" where
  "escolher_mais_recente_df_final W competencia =
    (case listar_df_final_por_competencia W competencia of
       [] \<Rightarrow> None
     | a # resto \<Rightarrow> Some a)"

text \<open>
  \<open>carregar_excel_do_supabase\<close>: nothing when the client is absent, the download fails or
  the bytes are empty; otherwise the workbook read from the bytes, which may raise.
\<close>

definition carregar_excel_do_supabase :: "mundo \<Rightarrow> pystr \<Rightarrow> dataframe option resultado" where
  "carregar_excel_do_supabase W path =
    (case supabase W of
       None \<Rightarrow> Retorna None
     | Some B \<Rightarrow>
        (case baixar B path of
           None \<Rightarrow> Retorna None
         | Some b \<Rightarrow>
            (case read_excel W b of None \<Rightarrow> Levanta | Some df \<Rightarrow> Retorna (Some df))))"

subsection \<open>Local output files\<close>

text \<open>\<open>os.path.join\<close> of two POSIX paths.\<close>

definition path_join :: "pystr \<Rightarrow> pystr \<Rightarrow> pystr" where
  "path_join a b =
    (if take 1 b = [47] then b
     else if a = [] \<or> last a = 47 then a @ b
     else a @ [47] @ b)"

definition OUTPUT_DIR :: "mundo \<Rightarrow> pystr" where
  "OUTPUT_DIR W =
    (if vercel W then str ''/tmp/outputs'' else path_join (root_path W) (str ''outputs''))"

text \<open>The base name of the workbook of each source.\<close>

fun base_fonte :: "slot \<Rightarrow> pystr" where
  "base_fonte Pj1 = str ''pj1''"
| "base_fonte Seg = str ''seguro_pj''"
| "base_fonte Cam = str ''cambio''"
| "base_fonte Co_ter = str ''co_corretagem_terceiras''"
| "base_fonte Co_xpvp = str ''co_corretagem_xpvp''"
| "base_fonte Cre = str ''credito''"
| "base_fonte Xpcs = str ''xpcs''"
| "base_fonte Lan_man = str ''lancamentos_manuais''"
| "base_fonte Tim_rep = str ''times_repasses''"
| "base_fonte Lan_pro = str ''lancamento_produtos''"

definition saida :: "mundo \<Rightarrow> pystr \<Rightarrow> pystr" where
  "saida W base = path_join (OUTPUT_DIR W) (base @ str ''.xlsx'')"

definition OUTPUT_FILES :: "mundo \<Rightarrow> (pystr \<times> pystr) list" where
  "OUTPUT_FILES W =
    (str ''df_final'', saida W (str ''df_final'')) #
    (str ''df_juntar'', saida W (str ''df_juntar'')) #
    map (\<lambda>k. (nome_chave k, saida W (base_fonte k))) todas_chaves"

text \<open>The messages that the routes flash.\<close>

definition msg_supabase_ausente :: pystr where
  "msg_supabase_ausente =
    str (''Supabase n'' @ [CHR 0xE3] @ ''o est'' @ [CHR 0xE1] @ '' configurado. N'' @
      [CHR 0xE3] @ ''o consigo listar/abrir arquivos antigos.'')"

definition msg_competencia_invalida :: pystr where
  "msg_competencia_invalida =
    str (''Selecione uma compet'' @ [CHR 0xEA] @ ''ncia v'' @ [CHR 0xE1] @
      ''lida para visualizar.'')"

definition msg_sem_df_final :: pystr where
  "msg_sem_df_final =
    str (''N'' @ [CHR 0xE3] @ ''o encontrei df_final para essa compet'' @ [CHR 0xEA] @
      ''ncia no Supabase.'')"

definition msg_sem_excel :: pystr where
  "msg_sem_excel =
    str (''N'' @ [CHR 0xE3] @ ''o consegui baixar/ler o Excel selecionado do Supabase.'')"

definition msg_selecione_competencia :: pystr where
  "msg_selecione_competencia =
    str (''Selecione a compet'' @ [CHR 0xEA] @ ''ncia (m'' @ [CHR 0xEA] @
      ''s/ano) antes de processar.'')"

definition msg_nenhum_arquivo :: pystr where
  "msg_nenhum_arquivo =
    str (''Nenhum arquivo foi enviado. Selecione a pasta ou os '' @ ''arquivos de comiss'' @
      [CHR 0xE3] @ ''o.'')"

definition msg_faltando :: pystr where
  "msg_faltando =
    str (''N'' @ [CHR 0xE3] @ ''o consegui identificar estes tipos de arquivo: '')"

definition msg_confira :: pystr where
  "msg_confira =
    str (''Confira se os nomes cont'' @ [CHR 0xEA] @ ''m: Seguro, C'' @ [CHR 0xE2] @
      ''mbio, Terceiras, XPVP, Cr'' @ [CHR 0xE9] @ ''dito, XPCS, Lan'' @ [CHR 0xE7] @
      ''amentos Manuais, Times e Repasses, Lan'' @ [CHR 0xE7] @ ''amento de Produtos.'')"

definition msg_envio_falhou :: pystr where
  "msg_envio_falhou =
    str (''N'' @ [CHR 0xE3] @ ''o consegui enviar os Excels para o Supabase. Voc'' @
      [CHR 0xEA] @ '' ainda pode ver a tabela na tela.'')"

definition msg_download_local :: pystr where
  "msg_download_local =
    str (''Arquivo n'' @ [CHR 0xE3] @ ''o encontrado para download local.'')"

section \<open>The dashboard context\<close>

text \<open>The keys of the dict that \<open>montar_contexto_dashboard\<close> returns.\<close>

record contexto =
  tabela :: pystr
  total_assessores :: nat
  soma_total :: pystr
  media_total :: pystr
  max_total :: pystr
  max_total_val :: "pystr option"
  tabelas_fontes :: "(pystr \<times> pystr) list"
  links_fontes :: "(pystr \<times> pystr) list"
  df_juntar :: dataframe
  caminho_df_final :: "pystr option"
  competencia :: pystr
  competencias_disponiveis :: "pystr list"
  competencia_atual :: "pystr option"
  arquivos_df_final :: "pystr list"

text \<open>The labels of the ten sources on the page.\<close>

fun rotulo :: "slot \<Rightarrow> pystr" where
  "rotulo Pj1 = str ''PJ1 - Base Principal''"
| "rotulo Seg = str ''Seguro PJ''"
| "rotulo Cam = str (''C'' @ [CHR 0xE2] @ ''mbio'')"
| "rotulo Co_ter = str ''Co-corretagem Terceiras''"
| "rotulo Co_xpvp = str ''Co-corretagem XPVP''"
| "rotulo Cre = str (''Cr'' @ [CHR 0xE9] @ ''dito'')"
| "rotulo Xpcs = str ''XPCS''"
| "rotulo Lan_man = str (''Lan'' @ [CHR 0xE7] @ ''amentos Manuais'')"
| "rotulo Tim_rep = str ''Times e Repasses''"
| "rotulo Lan_pro = str (''Lan'' @ [CHR 0xE7] @ ''amento de Produtos'')"

text \<open>
  The metrics: the number of rows and the sum, the mean and the maximum of the column
  \<open>Valor Total Assessor\<close>, or zeros when the frame has no such column.
\<close>

definition metricas ::
  "mundo \<Rightarrow> dataframe \<Rightarrow> (nat \<times> pyfloat \<times> pyfloat \<times> pyfloat) resultado" where
  "metricas W df_final =
    (case map_of df_final valor_total_assessor of
       None \<Rightarrow> Retorna (len_df df_final, Finite 0, Finite 0, Finite 0)
     | Some c \<Rightarrow>
        (case valores c of
           None \<Rightarrow> Levanta
         | Some xs \<Rightarrow>
            Retorna (len_df df_final, serie_sum W xs, serie_mean W xs, serie_max xs)))"

text \<open>
  \<open>montar_contexto_dashboard\<close>. The function rounds the frame it is given in place, so
  the model returns the frame as the caller finds it after the call, beside the context
  (or the fact that the call raised). The records of \<open>df_juntar\<close> are represented by the
  frame itself.
\<close>

definition montar_contexto_dashboard ::
  "mundo \<Rightarrow> dataframe \<Rightarrow> pystr \<Rightarrow> pystr option \<Rightarrow> dataframe option \<Rightarrow>
   (pystr \<times> dataframe) list option \<Rightarrow> contexto resultado \<times> dataframe" where
  "montar_contexto_dashboard W df_final0 competencia_label caminho df_juntar_arg tabelas_fontes_dfs =
    (let df_final = arredondar df_final0;
         df_display = exibir df_final;
         tabela_html = to_html W df_display;
         df_juntar_registros =
           (case df_juntar_arg of
              None \<Rightarrow> []
            | Some dj \<Rightarrow> if vazio dj then [] else dj);
         fontes_html =
           (case tabelas_fontes_dfs of
              None \<Rightarrow> []
            | Some dfs \<Rightarrow> map (\<lambda>(nome, df). (nome, to_html W df)) dfs);
         links = map (\<lambda>k. (rotulo k, url_for_download W (nome_chave k))) todas_chaves;
         atual =
           (case caminho of
              None \<Rightarrow> None
            | Some c \<Rightarrow> if c \<noteq> [] \<and> 47 \<in> set c then Some (hd (split 47 c)) else None);
         arquivos =
           (case atual of
              None \<Rightarrow> []
            | Some a \<Rightarrow> if a \<noteq> [] then listar_df_final_por_competencia W a else [])
     in (case metricas W df_final of
           Levanta \<Rightarrow> (Levanta, df_final)
         | Retorna (n_linhas, soma, media, maximo) \<Rightarrow>
            (Retorna
              \<lparr>tabela = tabela_html,
               total_assessores = n_linhas,
               soma_total = brl soma,
               media_total = brl media,
               max_total = brl media,
               max_total_val = Some (brl maximo),
               tabelas_fontes = fontes_html,
               links_fontes = links,
               df_juntar = df_juntar_registros,
               caminho_df_final = caminho,
               competencia = competencia_label,
               competencias_disponiveis = listar_competencias W,
               competencia_atual = atual,
               arquivos_df_final = arquivos\<rparr>,
             df_final)))"

text \<open>\<open>contexto["max_total"] = contexto.pop("max_total_val")\<close>, a KeyError when the key is absent.\<close>

definition corrige_max_total :: "contexto \<Rightarrow> contexto resultado" where
  "corrige_max_total ctx =
    (case max_total_val ctx of
       None \<Rightarrow> Levanta
     | Some v \<Rightarrow> Retorna (ctx\<lparr>max_total := v, max_total_val := None\<rparr>))"

section \<open>The routes\<close>

text \<open>
  What a route answers: a redirect to the index page, the page \<open>resultado.html\<close> rendered
  with a context, a file sent, or an exception that nothing catches. The messages flashed
  on the way are returned beside it.
\<close>

datatype resposta = Redirect_index | Render contexto | Send_file pystr | Erro_500

text \<open>The request of \<open>/processar\<close>: the uploaded files and the form field.\<close>

record pedido =
  arquivos :: "upload list"
  form_competencia :: "pystr option"

text \<open>What a run leaves behind: the workbooks written on disk and those uploaded, in order.\<close>

record efeitos =
  gravados :: "(pystr \<times> dataframe) list"
  enviados :: "(pystr \<times> dataframe) list"

definition sem_efeitos :: efeitos where
  "sem_efeitos = \<lparr>gravados = [], enviados = []\<rparr>"

text \<open>The ten calls of \<open>pd.read_excel\<close> on the slots, in order; nothing when one raises.\<close>

definition ler_fontes :: "mundo \<Rightarrow> (slot \<Rightarrow> upload option) \<Rightarrow> dataframe list option" where
  "ler_fontes W sl =
    those (map (\<lambda>k. case sl k of None \<Rightarrow> None | Some f \<Rightarrow> read_excel W (stream f))
             todas_chaves)"

text \<open>The local copies, written when the variable \<open>VERCEL\<close> is not set.\<close>

definition gravar_local ::
  "mundo \<Rightarrow> pystr \<Rightarrow> dataframe \<Rightarrow> dataframe \<Rightarrow> dataframe list \<Rightarrow> (pystr \<times> dataframe) list" where
  "gravar_local W prefixo df_final dj fontes =
    (if vercel W then []
     else (saida W (str ''df_final''), df_final) # (saida W (str ''df_juntar''), dj) #
          map (\<lambda>(k, df). (saida W (base_fonte k), df)) (zip todas_chaves fontes) @
          [(path_join (path_join (OUTPUT_DIR W) prefixo) (str ''df_final.xlsx''), df_final)])"

text \<open>
  The uploads, all under one timestamp. The first upload that raises ends them: a message
  is flashed and the path of the uploaded aggregate is forgotten.
\<close>

definition a_enviar ::
  "mundo \<Rightarrow> pystr \<Rightarrow> dataframe \<Rightarrow> dataframe \<Rightarrow> dataframe list \<Rightarrow> (pystr \<times> dataframe) list" where
  "a_enviar W prefixo df_final dj fontes =
    (prefixo @ str ''/df_final_'' @ agora W @ str ''.xlsx'', df_final) #
    (prefixo @ str ''/df_juntar_'' @ agora W @ str ''.xlsx'', dj) #
    map (\<lambda>(k, df). (prefixo @ [47] @ base_fonte k @ [95] @ agora W @ str ''.xlsx'', df))
      (zip todas_chaves fontes)"

definition enviar ::
  "mundo \<Rightarrow> pystr \<Rightarrow> dataframe \<Rightarrow> dataframe \<Rightarrow> dataframe list \<Rightarrow>
   pystr option \<times> (pystr \<times> dataframe) list \<times> pystr list" where
  "enviar W prefixo df_final dj fontes =
    (case supabase W of
       None \<Rightarrow> (None, [], [])
     | Some B \<Rightarrow>
        (let alvo = a_enviar W prefixo df_final dj fontes;
             feitos = takeWhile (\<lambda>(path, df). aceita B path) alvo
         in if length feitos = length alvo
            then (Some (prefixo @ str ''/df_final_'' @ agora W @ str ''.xlsx''), feitos, [])
            else (None, feitos, [msg_envio_falhou])))"

definition processar :: "mundo \<Rightarrow> pedido \<Rightarrow> resposta \<times> pystr list \<times> efeitos" where
  "processar W req =
    (let competencia =
           strip (lib W) (case form_competencia req of None \<Rightarrow> [] | Some s \<Rightarrow> s)
     in if \<not> casa_competencia (lib W) competencia
        then (Redirect_index, [msg_selecione_competencia], sem_efeitos)
        else
          (case split 45 competencia of
             [ano, mes] \<Rightarrow>
               (let prefixo_competencia = ano @ [45] @ mes;
                    competencia_label = mes @ [47] @ ano
                in if arquivos req = [] \<or> filename (hd (arquivos req)) = Some []
                   then (Redirect_index, [msg_nenhum_arquivo], sem_efeitos)
                   else
                     (case classificar_arquivos (lib W) (arquivos req) of
                        (sl, faltando) \<Rightarrow>
                          if faltando \<noteq> []
                          then (Redirect_index,
                                [msg_faltando @ join (str '', '') (map nome_chave faltando),
                                 msg_confira],
                                sem_efeitos)
                          else
                            (case ler_fontes W sl of
                               None \<Rightarrow> (Erro_500, [], sem_efeitos)
                             | Some fontes \<Rightarrow>
                                (case calcular_comissoes W fontes of
                                   None \<Rightarrow> (Erro_500, [], sem_efeitos)
                                 | Some (df_final0, dj) \<Rightarrow>
                                    (let df_final = arredondar df_final0;
                                         gr = gravar_local W prefixo_competencia df_final dj fontes
                                     in case enviar W prefixo_competencia df_final dj fontes of
                                          (nome_arquivo_df_final, en, fl) \<Rightarrow>
                                            (let ef = \<lparr>gravados = gr, enviados = en\<rparr>
                                             in case montar_contexto_dashboard W df_final
                                                       competencia_label nome_arquivo_df_final
                                                       (Some dj)
                                                       (Some (zip (map rotulo todas_chaves) fontes)) of
                                                  (Levanta, df') \<Rightarrow> (Erro_500, fl, ef)
                                                | (Retorna ctx, df') \<Rightarrow>
                                                   (case corrige_max_total ctx of
                                                      Levanta \<Rightarrow> (Erro_500, fl, ef)
                                                    | Retorna ctx' \<Rightarrow> (Render ctx', fl, ef))))))))
           | outros \<Rightarrow> (Erro_500, [], sem_efeitos)))"

text \<open>
  The sources stored beside an aggregate, each under its label, those that can be loaded;
  a workbook that cannot be read makes the whole request fail.
\<close>

fun carregar_fontes ::
  "mundo \<Rightarrow> pystr \<Rightarrow> pystr \<Rightarrow> slot list \<Rightarrow> (pystr \<times> dataframe) list resultado" where
  "carregar_fontes W compet ts [] = Retorna []"
| "carregar_fontes W compet ts (k # ks) =
    (case carregar_excel_do_supabase W
            (compet @ [47] @ base_fonte k @ [95] @ ts @ str ''.xlsx'') of
       Levanta \<Rightarrow> Levanta
     | Retorna r \<Rightarrow>
        (case carregar_fontes W compet ts ks of
           Levanta \<Rightarrow> Levanta
         | Retorna resto \<Rightarrow>
            Retorna (case r of None \<Rightarrow> resto | Some df \<Rightarrow> (rotulo k, df) # resto)))"

text \<open>
  The file that \<open>/visualizar\<close> opens: the one named in the request, or the most recent
  aggregate of the competence; otherwise the message to flash.
\<close>

definition arquivo_escolhido :: "mundo \<Rightarrow> pystr \<Rightarrow> pystr \<Rightarrow> pystr + pystr" where
  "arquivo_escolhido W file_path compet =
    (if file_path \<noteq> [] then Inr file_path
     else if \<not> casa_competencia (lib W) compet then Inl msg_competencia_invalida
     else
       (case escolher_mais_recente_df_final W compet of
          None \<Rightarrow> Inl msg_sem_df_final
        | Some p \<Rightarrow> if p = [] then Inl msg_sem_df_final else Inr p))"

text \<open>The label \<open>MM/YYYY\<close> of a competence, a dash (U+2014) when it is not one.\<close>

definition rotulo_competencia :: "mundo \<Rightarrow> pystr \<Rightarrow> pystr resultado" where
  "rotulo_competencia W compet =
    (if casa_competencia (lib W) compet
     then (case split 45 compet of
             p0 # p1 # resto \<Rightarrow> Retorna (p1 @ [47] @ p0)
           | outros \<Rightarrow> Levanta)
     else Retorna [8212])"

text \<open>The ledger and the sources of the same timestamp, when the path carries one.\<close>

definition carregar_extras ::
  "mundo \<Rightarrow> pystr \<Rightarrow> pystr option \<Rightarrow>
   (dataframe option \<times> (pystr \<times> dataframe) list option) resultado" where
  "carregar_extras W compet timestamp =
    (case timestamp of
       None \<Rightarrow> Retorna (None, None)
     | Some ts \<Rightarrow>
        if ts \<noteq> [] \<and> casa_competencia (lib W) compet
        then
          (case carregar_excel_do_supabase W
                  (compet @ str ''/df_juntar_'' @ ts @ str ''.xlsx'') of
             Levanta \<Rightarrow> Levanta
           | Retorna dj \<Rightarrow>
              (case carregar_fontes W compet ts todas_chaves of
                 Levanta \<Rightarrow> Levanta
               | Retorna dfs \<Rightarrow> Retorna (dj, if dfs = [] then None else Some dfs)))
        else Retorna (None, None))"

definition visualizar_antigo ::
  "mundo \<Rightarrow> pystr option \<Rightarrow> pystr option \<Rightarrow> resposta \<times> pystr list" where
  "visualizar_antigo W arg_file arg_competencia =
    (if supabase W = None then (Redirect_index, [msg_supabase_ausente])
     else
       (let file_arg = strip (lib W) (case arg_file of None \<Rightarrow> [] | Some s \<Rightarrow> s);
            competencia =
              strip (lib W) (case arg_competencia of None \<Rightarrow> [] | Some s \<Rightarrow> s)
        in case arquivo_escolhido W file_arg competencia of
             Inl msg \<Rightarrow> (Redirect_index, [msg])
           | Inr file_path \<Rightarrow>
              (case carregar_excel_do_supabase W file_path of
                 Levanta \<Rightarrow> (Erro_500, [])
               | Retorna None \<Rightarrow> (Redirect_index, [msg_sem_excel])
               | Retorna (Some df_final) \<Rightarrow>
                  (let timestamp = busca_timestamp (lib W) file_path;
                       compet = (if 47 \<in> set file_path then hd (split 47 file_path)
                               else competencia)
                   in case rotulo_competencia W compet of
                        Levanta \<Rightarrow> (Erro_500, [])
                      | Retorna competencia_label \<Rightarrow>
                         (case carregar_extras W compet timestamp of
                            Levanta \<Rightarrow> (Erro_500, [])
                          | Retorna (dj, tabelas_fontes_dfs) \<Rightarrow>
                             (case montar_contexto_dashboard W df_final competencia_label
                                     (Some file_path) dj tabelas_fontes_dfs of
                                (Levanta, df') \<Rightarrow> (Erro_500, [])
                              | (Retorna ctx, df') \<Rightarrow>
                                 (case corrige_max_total ctx of
                                    Levanta \<Rightarrow> (Erro_500, [])
                                  | Retorna ctx' \<Rightarrow> (Render ctx', []))))))))"

text \<open>\<open>/download/<nome>\<close>\<close>

definition download_excel :: "mundo \<Rightarrow> pystr \<Rightarrow> resposta \<times> pystr list" where
  "download_excel W nome =
    (case map_of (OUTPUT_FILES W) nome of
       None \<Rightarrow> (Redirect_index, [msg_download_local])
     | Some path \<Rightarrow>
        if path = [] \<or> \<not> existe W path then (Redirect_index, [msg_download_local])
        else (Send_file path, []))"

section \<open>Concrete inputs for the examples\<close>

text \<open>An instance of the library parameters that is right on ASCII strings.\<close>

definition lower_ascii :: "pystr \<Rightarrow> pystr" where
  "lower_ascii s = map (\<lambda>c. if 65 \<le> c \<and> c \<le> 90 then c + 32 else c) s"

definition py_ascii :: py where
  "py_ascii = \<lparr>lower = lower_ascii, strip = (\<lambda>s. s), digit = (\<lambda>c. 48 \<le> c \<and> c \<le> 57)\<rparr>"

definition arq :: "string \<Rightarrow> nat \<Rightarrow> upload" where
  "arq nome n = \<lparr>filename = Some (str nome), stream = n\<rparr>"

text \<open>A batch of ten workbooks, one for each slot, and the same batch without the XPCS one.\<close>

definition dez_arquivos :: "upload list" where
  "dez_arquivos =
    [arq ''Base.xlsx'' 0, arq ''Seguro.xlsx'' 1, arq ''Cambio.xlsx'' 2, arq ''Terceiras.xlsx'' 3,
     arq ''XPVP.xlsx'' 4, arq ''Credito.xlsx'' 5, arq ''XPCS.xlsx'' 6,
     arq ''Lancamentos Manuais.xlsx'' 7, arq ''Times e Repasses.xlsx'' 8,
     arq ''Lancamento de Produtos.xlsx'' 9]"


text \<open>The tables of the example: an aggregate of two advisors, a ledger, a source.\<close>

definition df_final_exemplo :: dataframe where
  "df_final_exemplo =
    [(str ''Assessor'', Obj [str ''A1'', str ''A2'']),
     (valor_total_assessor, Num [Finite (150005 / 1000), Finite (2 / 3)])]"

definition df_juntar_exemplo :: dataframe where
  "df_juntar_exemplo =
    [(str ''Assessor'', Obj [str ''A1'', str ''A1'', str ''A2'']),
     (str ''Valor'', Num [Finite 100, Finite (50005 / 1000), Finite (2 / 3)])]"

definition fonte_exemplo :: dataframe where
  "fonte_exemplo = [(str ''Assessor'', Obj [str ''A1''])]"

text \<open>A bucket with two aggregates of January 2025 and other objects.\<close>

definition bucket_exemplo :: bucket where
  "bucket_exemplo =
    \<lparr>listar = (\<lambda>path. if path = str ''2025-01''
                then Some [Some (str ''df_final_20250101_120000.xlsx''),
                           Some (str ''pj1_20250101_120000.xlsx''), None,
                           Some (str ''df_final_20250102_080000.xlsx'')]
                else Some []),
     baixar = (\<lambda>path. if path = str ''2025-01/df_final_20250102_080000.xlsx''
                then Some 100 else None),
     aceita = (\<lambda>path. True)\<rparr>"

text \<open>Exact sum and mean of the finite values, standing for the reductions of pandas.\<close>

fun valor_de :: "pyfloat \<Rightarrow> rat" where
  "valor_de (Finite q) = q"
| "valor_de v = 0"

definition soma_exata :: "pyfloat list \<Rightarrow> pyfloat" where
  "soma_exata xs = Finite (sum_list (map valor_de xs))"

definition media_exata :: "pyfloat list \<Rightarrow> pyfloat" where
  "media_exata xs =
    (if xs = [] then NaN else Finite (sum_list (map valor_de xs) / of_nat (length xs)))"

definition mundo_exemplo :: mundo where
  "mundo_exemplo =
    \<lparr>lib = py_ascii,
     supabase = Some bucket_exemplo,
     vercel = True,
     root_path = str ''/app'',
     existe = (\<lambda>path. path = str ''/tmp/outputs/df_final.xlsx''),
     read_excel = (\<lambda>b. if b = 100 then Some df_final_exemplo else Some fonte_exemplo),
     calcular_comissoes = (\<lambda>fontes. Some (df_final_exemplo, df_juntar_exemplo)),
     agora = str ''20250103_090000'',
     to_html = (\<lambda>df. []),
     url_for_download = (\<lambda>nome. str ''/download/'' @ nome),
     serie_sum = soma_exata,
     serie_mean = media_exata\<rparr>"

definition pedido_exemplo :: pedido where
  "pedido_exemplo = \<lparr>arquivos = dez_arquivos, form_competencia = Some (str ''2025-01'')\<rparr>"


section \<open>Properties of the string functions\<close>





lemma split_nao_vazio: "split sep s \<noteq> []"
  by (induction s) (auto split: list.splits)


section \<open>Properties of the classifier\<close>

lemma chave_do_nome_not_pj1: "chave_do_nome nome \<noteq> Some Pj1"
  by (simp add: chave_do_nome_def)

lemma passo_slots:
  "slots (passo P f st) k =
    (if slots st k = None \<and> chave_do_nome (nome_de P f) = Some k then Some f else slots st k)"
  by (simp add: passo_def marca_def split: option.splits)

lemma passo_usados:
  "usados (passo P f st) =
    (case chave_do_nome (nome_de P f) of
       None \<Rightarrow> usados st
     | Some k \<Rightarrow> if slots st k = None then insert (nome_de P f) (usados st) else usados st)"
  by (simp add: passo_def marca_def split: option.splits)

text \<open>After the loop a slot holds the first file that the chain sends to it.\<close>

lemma laco_slots:
  "slots (laco P fs st) k =
    (case slots st k of
       Some f \<Rightarrow> Some f
     | None \<Rightarrow> find (\<lambda>f. chave_do_nome (nome_de P f) = Some k) fs)"
proof (induction fs arbitrary: st)
  case Nil
  then show ?case by (simp split: option.splits)
next
  case (Cons f fs)
  show ?case
    by (simp add: Cons.IH passo_slots split: option.splits)
qed

lemma laco_pj1: "slots (laco P fs st) Pj1 = slots st Pj1"
  by (induction fs arbitrary: st) (simp_all add: passo_slots chave_do_nome_not_pj1)

lemma laco_usados_sub:
  "usados (laco P fs st) \<subseteq>
    usados st \<union> {n. \<exists>f\<in>set fs. n = nome_de P f \<and> chave_do_nome n \<noteq> None}"
proof (induction fs arbitrary: st)
  case Nil
  then show ?case by simp
next
  case (Cons f fs)
  have "usados (passo P f st) \<subseteq> usados st \<union> {n. n = nome_de P f \<and> chave_do_nome n \<noteq> None}"
    by (auto simp: passo_usados split: option.splits if_splits)
  with Cons.IH[of "passo P f st"] show ?case by auto
qed

lemma laco_usados_mono: "usados st \<subseteq> usados (laco P fs st)"
proof (induction fs arbitrary: st)
  case Nil
  then show ?case by simp
next
  case (Cons f fs)
  have "usados st \<subseteq> usados (passo P f st)"
    by (auto simp: passo_usados split: option.splits)
  with Cons.IH[of "passo P f st"] show ?case by auto
qed

text \<open>The name of a file that the loop puts in a slot is recorded in \<open>usados\<close>.\<close>

lemma laco_placed_usado:
  "slots st k = None \<Longrightarrow> slots (laco P fs st) k = Some f \<Longrightarrow>
    nome_de P f \<in> usados (laco P fs st)"
proof (induction fs arbitrary: st)
  case Nil
  then show ?case by simp
next
  case (Cons g fs)
  show ?case
  proof (cases "chave_do_nome (nome_de P g) = Some k")
    case True
    with Cons.prems have a: "slots (passo P g st) k = Some g" by (simp add: passo_slots)
    then have "slots (laco P fs (passo P g st)) k = Some g" by (simp add: laco_slots)
    with Cons.prems have "f = g" by simp
    moreover have "nome_de P g \<in> usados (passo P g st)"
      using True Cons.prems by (simp add: passo_usados)
    ultimately show ?thesis using laco_usados_mono[of "passo P g st" P fs] by auto
  next
    case False
    with Cons.prems have "slots (passo P g st) k = None" by (simp add: passo_slots)
    with Cons.IH[of "passo P g st"] Cons.prems show ?thesis by simp
  qed
qed

lemma chave_do_nome_tabela: "chave_do_nome nome = primeira_palavra nome"
  by (simp add: chave_do_nome_def primeira_palavra_def tabela_palavras_def)

lemma classificar_slots:
  "k \<noteq> Pj1 \<Longrightarrow>
    fst (classificar_arquivos P files) k =
      find (\<lambda>f. chave_do_nome (nome_de P f) = Some k) files"
  by (simp add: classificar_arquivos_def Let_def laco_slots estado_inicial_def)

lemma classificar_pj1:
  "fst (classificar_arquivos P files) Pj1 =
    (case nao_usados P files of [] \<Rightarrow> None | f # _ \<Rightarrow> Some f)"
  by (simp add: classificar_arquivos_def Let_def laco_pj1 estado_inicial_def split: list.splits)

lemma sem_palavra_nao_usado:
  assumes "f \<in> set files" "chave_do_nome (nome_de P f) = None"
  shows "f \<in> set (nao_usados P files)"
proof -
  have "nome_de P f \<notin> usados (laco P files estado_inicial)"
    using laco_usados_sub[of P files estado_inicial] assms(2)
    by (auto simp: estado_inicial_def)
  with assms(1) show ?thesis by (simp add: nao_usados_def)
qed

lemma classificar_em_files:
  assumes "fst (classificar_arquivos P files) k = Some g"
  shows "g \<in> set files"
proof (cases "k = Pj1")
  case True
  with assms obtain rest where "nao_usados P files = g # rest"
    by (auto simp: classificar_pj1 split: list.splits)
  then have "g \<in> set (nao_usados P files)" by simp
  then show ?thesis by (simp add: nao_usados_def)
next
  case False
  with assms have "find (\<lambda>f. chave_do_nome (nome_de P f) = Some k) files = Some g"
    by (simp add: classificar_slots)
  then show ?thesis by (auto simp: find_Some_iff)
qed

lemma classificar_chave:
  assumes "k \<noteq> Pj1" "fst (classificar_arquivos P files) k = Some g"
  shows "chave_do_nome (nome_de P g) = Some k"
    and "nome_de P g \<in> usados (laco P files estado_inicial)"
proof -
  from assms have "find (\<lambda>f. chave_do_nome (nome_de P f) = Some k) files = Some g"
    by (simp add: classificar_slots)
  then show "chave_do_nome (nome_de P g) = Some k" by (auto simp: find_Some_iff)
  from assms have "slots (laco P files estado_inicial) k = Some g"
    by (simp add: classificar_arquivos_def Let_def split: if_splits)
  then show "nome_de P g \<in> usados (laco P files estado_inicial)"
    using laco_placed_usado[of estado_inicial k P files g] by (simp add: estado_inicial_def)
qed

lemma classificar_pj1_nao_usado:
  assumes "fst (classificar_arquivos P files) Pj1 = Some g"
  shows "nome_de P g \<notin> usados (laco P files estado_inicial)"
proof -
  from assms obtain rest where "nao_usados P files = g # rest"
    by (auto simp: classificar_pj1 split: list.splits)
  then have "g \<in> set (nao_usados P files)" by simp
  then show ?thesis by (simp add: nao_usados_def)
qed

lemma classificar_injetivo:
  assumes "fst (classificar_arquivos P files) k = Some g"
    and "fst (classificar_arquivos P files) k' = Some g"
  shows "k = k'"
proof (cases "k = Pj1")
  case True
  show ?thesis
  proof (cases "k' = Pj1")
    case True
    with \<open>k = Pj1\<close> show ?thesis by simp
  next
    case False
    from classificar_chave(2)[OF False assms(2)] classificar_pj1_nao_usado[of P files g] assms(1) True
    show ?thesis by simp
  qed
next
  case False
  show ?thesis
  proof (cases "k' = Pj1")
    case True
    from classificar_chave(2)[OF False assms(1)] classificar_pj1_nao_usado[of P files g] assms(2) True
    show ?thesis by simp
  next
    case k': False
    from classificar_chave(1)[OF False assms(1)] classificar_chave(1)[OF k' assms(2)]
    show ?thesis by simp
  qed
qed

lemmas kws = kw_seguro_def kw_cambio_ac_def kw_cambio_def kw_terceiras_def kw_xpvp_def
  kw_credito_ac_def kw_credito_def kw_xpcs_def kw_lan_man_ac_def kw_lan_man_def
  kw_tim_rep_def kw_lan_pro_ac_def kw_lan_pro_def

lemma nome_de_arq: "nome_de py_ascii (arq s n) = lower_ascii (str s)"
  by (simp add: nome_de_def py_ascii_def arq_def)

lemma chave_seguro_cambio: "chave_do_nome (lower_ascii (str ''Seguro Cambio.xlsx'')) = Some Seg"
  by (simp add: chave_do_nome_def kws str_def lower_ascii_def)

lemma chave_cambio: "chave_do_nome (lower_ascii (str ''CAMBIO.xlsx'')) = Some Cam"
  by (simp add: chave_do_nome_def kws str_def lower_ascii_def)

lemma chave_a: "chave_do_nome (lower_ascii (str ''a.xlsx'')) = None"
  by (simp add: chave_do_nome_def kws str_def lower_ascii_def)

lemma chave_b: "chave_do_nome (lower_ascii (str ''b.xlsx'')) = None"
  by (simp add: chave_do_nome_def kws str_def lower_ascii_def)

text \<open>
  C4. Keyword classification with fixed precedence. The key that the chain of tests gives a
  lowercased file name is the slot of the first row of the keyword table (seguro, cambio,
  terceiras, xpvp, credito, xpcs, lancamentos manuais, times e repasses, lancamento de
  produtos, with their accented spellings) that has a keyword occurring in the name, so a name
  with two keywords goes to the earlier one's slot; one step of the loop puts the file in
  that slot only if the slot is still empty; and after classification each keyword slot holds
  the first uploaded file whose first matching keyword is the slot's.
\<close>

theorem classificar_precedencia:
  "chave_do_nome (nome_de P f) = primeira_palavra (nome_de P f) \<and>
   slots (passo P f st) k =
     (if slots st k = None \<and> primeira_palavra (nome_de P f) = Some k
      then Some f else slots st k) \<and>
   (k \<noteq> Pj1 \<longrightarrow>
     fst (classificar_arquivos P files) k =
       find (\<lambda>g. primeira_palavra (nome_de P g) = Some k) files)"
  using classificar_slots[of k P files]
  by (simp add: passo_slots chave_do_nome_tabela)

theorem classificar_precedencia_witness:
  "chave_do_nome (nome_de py_ascii (arq ''Seguro Cambio.xlsx'' 1)) = Some Seg \<and>
   fst (classificar_arquivos py_ascii [arq ''Seguro Cambio.xlsx'' 1, arq ''CAMBIO.xlsx'' 2]) Cam
     = Some (arq ''CAMBIO.xlsx'' 2) \<and>
   fst (classificar_arquivos py_ascii [arq ''Seguro Cambio.xlsx'' 1, arq ''CAMBIO.xlsx'' 2]) Seg
     = Some (arq ''Seguro Cambio.xlsx'' 1)"
  using classificar_precedencia[of py_ascii "arq ''Seguro Cambio.xlsx'' 1" estado_inicial Cam
          "[arq ''Seguro Cambio.xlsx'' 1, arq ''CAMBIO.xlsx'' 2]"]
        classificar_precedencia[of py_ascii "arq ''Seguro Cambio.xlsx'' 1" estado_inicial Seg
          "[arq ''Seguro Cambio.xlsx'' 1, arq ''CAMBIO.xlsx'' 2]"]
  by (simp add: nome_de_arq chave_seguro_cambio chave_cambio
      chave_do_nome_tabela[symmetric])

text \<open>
  C3, as stated, fails. Of two uploaded files that match no keyword only the first is put in
  the slot pj1; the second is in none of the ten slots.
\<close>

theorem classificar_fallback_counterexample:
  "chave_do_nome (nome_de py_ascii (arq ''b.xlsx'' 2)) = None \<and>
   map (fst (classificar_arquivos py_ascii [arq ''a.xlsx'' 1, arq ''b.xlsx'' 2])) todas_chaves =
     [Some (arq ''a.xlsx'' 1), None, None, None, None, None, None, None, None, None]"
proof -
  let ?fs = "[arq ''a.xlsx'' 1, arq ''b.xlsx'' 2]"
  have u: "usados (laco py_ascii ?fs estado_inicial) = {}"
    by (simp add: passo_def nome_de_arq chave_a chave_b estado_inicial_def)
  have "nao_usados py_ascii ?fs = ?fs"
    by (simp only: nao_usados_def u) simp
  then have "fst (classificar_arquivos py_ascii ?fs) Pj1 = Some (arq ''a.xlsx'' 1)"
    by (simp add: classificar_pj1)
  moreover have "k \<noteq> Pj1 \<Longrightarrow> fst (classificar_arquivos py_ascii ?fs) k = None" for k
    by (simp add: classificar_slots nome_de_arq chave_a chave_b)
  ultimately show ?thesis
    by (simp add: todas_chaves_def nome_de_arq chave_b)
qed

text \<open>
  C3, amended. The slot pj1 receives the first uploaded file, in upload order, whose
  lowercased name was not recorded as used, if there is one; a file that matches no keyword
  is never recorded as used, so pj1 is filled whenever such a file was uploaded. Every file
  in a slot is an uploaded file and no file is in two slots: each uploaded file is assigned
  to at most one of the ten slots.
\<close>

theorem classificar_fallback:
  "fst (classificar_arquivos P files) Pj1 =
     (case nao_usados P files of [] \<Rightarrow> None | f # _ \<Rightarrow> Some f) \<and>
   (f \<in> set files \<and> chave_do_nome (nome_de P f) = None \<longrightarrow> f \<in> set (nao_usados P files)) \<and>
   (fst (classificar_arquivos P files) k = Some g \<longrightarrow> g \<in> set files) \<and>
   (fst (classificar_arquivos P files) k = Some g \<and>
    fst (classificar_arquivos P files) k' = Some g \<longrightarrow> k = k')"
  using classificar_pj1 sem_palavra_nao_usado classificar_em_files classificar_injetivo
  by blast

theorem classificar_fallback_witness:
  "arq ''b.xlsx'' 2 \<in> set [arq ''Seguro.xlsx'' 1, arq ''b.xlsx'' 2] \<and>
   chave_do_nome (nome_de py_ascii (arq ''b.xlsx'' 2)) = None \<and>
   arq ''b.xlsx'' 2 \<in> set (nao_usados py_ascii [arq ''Seguro.xlsx'' 1, arq ''b.xlsx'' 2])"
  using classificar_fallback[of py_ascii "[arq ''Seguro.xlsx'' 1, arq ''b.xlsx'' 2]"
      "arq ''b.xlsx'' 2"]
  by (simp add: nome_de_arq chave_b)

section \<open>Properties of the currency format\<close>










text \<open>Rules that evaluate the recursive functions on numerals, one step at a time.\<close>

lemma floor_rat_numeral: "\<lfloor>numeral a / numeral b :: rat\<rfloor> = numeral a div numeral b"
  using floor_divide_of_int_eq[of "numeral a" "numeral b", where ?'a = rat] by simp













section \<open>Properties of rounding\<close>

lemma round_half_even_of_int: "round_half_even (of_int n) = n"
  by (simp add: round_half_even_def)

lemma round2_idem: "round2 (round2 v) = round2 v"
  by (cases v) (simp_all add: round_half_even_of_int)

text \<open>Rounding the numeric columns is rounding every column, a text column being kept.\<close>

lemma arredondar_map: "arredondar df = map (\<lambda>(nome, c). (nome, round_coluna c)) df"
proof -
  have "nome \<notin> set (colunas_numericas df) \<Longrightarrow> (nome, c) \<in> set df \<Longrightarrow> round_coluna c = c"
    for nome c
    by (cases c) (force simp: colunas_numericas_def)+
  then show ?thesis
    unfolding arredondar_def by (intro map_cong) auto
qed

lemma round_coluna_idem: "round_coluna (round_coluna c) = round_coluna c"
  by (cases c) (simp_all add: round2_idem)

lemma arredondar_idem: "arredondar (arredondar df) = arredondar df"
  by (simp add: arredondar_map round_coluna_idem case_prod_unfold)

lemma montar_df: "snd (montar_contexto_dashboard W df l c dj tf) = arredondar df"
  by (simp add: montar_contexto_dashboard_def Let_def split: resultado.splits prod.splits)

lemma map_of_arredondar: "map_of (arredondar df) n = map_option round_coluna (map_of df n)"
  by (simp add: arredondar_map map_of_map)

lemma round_half_even_mono:
  assumes "x \<le> y"
  shows "round_half_even x \<le> round_half_even y"
proof (cases "\<lfloor>x\<rfloor> = \<lfloor>y\<rfloor>")
  case True
  with assms show ?thesis
    by (auto simp: round_half_even_def Let_def)
next
  case False
  with assms have "\<lfloor>x\<rfloor> < \<lfloor>y\<rfloor>" using floor_mono[OF assms] by linarith
  moreover have "round_half_even x \<le> \<lfloor>x\<rfloor> + 1" by (simp add: round_half_even_def Let_def)
  moreover have "\<lfloor>y\<rfloor> \<le> round_half_even y" by (simp add: round_half_even_def Let_def)
  ultimately show ?thesis by linarith
qed

lemma round2_NaN: "round2 v = NaN \<longleftrightarrow> v = NaN"
  by (cases v) simp_all

lemma menor_igual_round2:
  "menor_igual a b \<Longrightarrow> menor_igual (round2 a) (round2 b)"
  by (cases a; cases b) (simp_all add: round_half_even_mono divide_right_mono)

lemma menor_igual_total: "a \<noteq> NaN \<Longrightarrow> b \<noteq> NaN \<Longrightarrow> menor_igual a b \<or> menor_igual b a"
  by (cases a; cases b) auto

lemma menor_igual_antisym: "menor_igual a b \<Longrightarrow> menor_igual b a \<Longrightarrow> a = b"
  by (cases a; cases b) auto

lemma maior_round2:
  assumes "a \<noteq> NaN" "b \<noteq> NaN"
  shows "round2 (maior a b) = maior (round2 a) (round2 b)"
proof (cases "menor_igual a b")
  case True
  then show ?thesis by (simp add: maior_def menor_igual_round2)
next
  case False
  with assms have ba: "menor_igual b a" using menor_igual_total by blast
  show ?thesis
  proof (cases "menor_igual (round2 a) (round2 b)")
    case True
    with menor_igual_round2[OF ba] have "round2 a = round2 b" by (rule menor_igual_antisym[rotated])
    with False show ?thesis by (simp add: maior_def)
  next
    case r: False
    with False show ?thesis by (simp add: maior_def)
  qed
qed

lemma maior_nao_NaN: "a \<noteq> NaN \<Longrightarrow> b \<noteq> NaN \<Longrightarrow> maior a b \<noteq> NaN"
  by (simp add: maior_def)

lemma fold_maior_round2:
  "y \<noteq> NaN \<Longrightarrow> NaN \<notin> set ys \<Longrightarrow>
    fold maior (map round2 ys) (round2 y) = round2 (fold maior ys y)"
proof (induction ys arbitrary: y)
  case Nil
  then show ?case by simp
next
  case (Cons z zs)
  then have n: "maior z y \<noteq> NaN" by (intro maior_nao_NaN) auto
  have "maior (round2 z) (round2 y) = round2 (maior z y)"
    using Cons.prems by (intro maior_round2[symmetric]) auto
  then show ?case using Cons n by simp
qed

lemma filter_round2: "filter (\<lambda>v. v \<noteq> NaN) (map round2 xs) = map round2 (filter (\<lambda>v. v \<noteq> NaN) xs)"
  by (induction xs) (simp_all add: round2_NaN)

text \<open>The maximum of the rounded column is the rounded maximum of the column.\<close>

lemma serie_max_round2: "serie_max (map round2 xs) = round2 (serie_max xs)"
proof (cases "filter (\<lambda>v. v \<noteq> NaN) xs")
  case Nil
  then show ?thesis by (simp add: serie_max_def filter_round2)
next
  case (Cons y ys)
  then have "y \<in> set (filter (\<lambda>v. v \<noteq> NaN) xs)" "set ys \<subseteq> set (filter (\<lambda>v. v \<noteq> NaN) xs)"
    by auto
  then have "y \<noteq> NaN" "NaN \<notin> set ys" by auto
  then show ?thesis
    using Cons by (simp add: serie_max_def filter_round2 fold_maior_round2)
qed

text \<open>The maximum is an element of the column and no element is above it.\<close>

lemma fold_maior_em: "fold maior ys y \<in> set (y # ys)"
  by (induction ys arbitrary: y) (auto simp: maior_def)

lemma menor_igual_refl: "a \<noteq> NaN \<Longrightarrow> menor_igual a a"
  by (cases a) auto

lemma menor_igual_trans: "menor_igual a b \<Longrightarrow> menor_igual b c \<Longrightarrow> menor_igual a c"
  by (cases a; cases b; cases c) auto

lemma fold_maior_acima_ini: "y \<noteq> NaN \<Longrightarrow> NaN \<notin> set ys \<Longrightarrow> menor_igual y (fold maior ys y)"
proof (induction ys arbitrary: y)
  case Nil
  then show ?case by (simp add: menor_igual_refl)
next
  case (Cons z zs)
  then have n: "maior z y \<noteq> NaN" by (intro maior_nao_NaN) auto
  have "menor_igual y (maior z y)"
    using Cons.prems menor_igual_total[of z y] by (auto simp: maior_def menor_igual_refl)
  moreover have "menor_igual (maior z y) (fold maior zs (maior z y))"
    using Cons n by simp
  ultimately show ?case by (auto intro: menor_igual_trans)
qed

lemma fold_maior_acima:
  "y \<noteq> NaN \<Longrightarrow> NaN \<notin> set ys \<Longrightarrow> v \<in> set ys \<Longrightarrow> menor_igual v (fold maior ys y)"
proof (induction ys arbitrary: y)
  case Nil
  then show ?case by simp
next
  case (Cons z zs)
  then have n: "maior z y \<noteq> NaN" by (intro maior_nao_NaN) auto
  show ?case
  proof (cases "v \<in> set zs")
    case True
    with Cons n show ?thesis by simp
  next
    case False
    with Cons.prems have "v = z" by simp
    have "menor_igual z (maior z y)"
      using Cons.prems by (auto simp: maior_def menor_igual_refl)
    moreover have "menor_igual (maior z y) (fold maior zs (maior z y))"
      using Cons.prems n by (intro fold_maior_acima_ini) auto
    ultimately show ?thesis using \<open>v = z\<close> by (auto intro: menor_igual_trans)
  qed
qed

lemma serie_max_maximo:
  assumes "v \<in> set xs" "v \<noteq> NaN"
  shows "serie_max xs \<in> set xs \<and> serie_max xs \<noteq> NaN \<and> menor_igual v (serie_max xs)"
proof -
  let ?f = "filter (\<lambda>v. v \<noteq> NaN) xs"
  from assms have "v \<in> set ?f" by simp
  then obtain y ys where f: "?f = y # ys" by (cases ?f) auto
  then have "y \<in> set ?f" "set ys \<subseteq> set ?f" by auto
  then have y: "y \<noteq> NaN" "NaN \<notin> set ys" by auto
  have m: "serie_max xs = fold maior ys y" by (simp add: serie_max_def f)
  have "fold maior ys y \<in> set ?f" using fold_maior_em[of ys y] f by simp
  then have a: "serie_max xs \<in> set xs" "serie_max xs \<noteq> NaN" using m by auto
  have "menor_igual v (fold maior ys y)"
  proof (cases "v = y")
    case True
    then show ?thesis using y by (simp add: fold_maior_acima_ini)
  next
    case False
    with \<open>v \<in> set ?f\<close> f have "v \<in> set ys" by auto
    then show ?thesis using y by (simp add: fold_maior_acima)
  qed
  with a m show ?thesis by simp
qed

text \<open>
  C9. After \<open>montar_contexto_dashboard\<close> the caller's frame has the same labels in the
  same order, every text column as it was, and every numeric column with each value
  rounded to two decimals at its own position; a rounded value is one that rounding leaves as
  it is.
\<close>

theorem montar_arredonda_no_lugar:
  "snd (montar_contexto_dashboard W df l c dj tf) =
     map (\<lambda>(nome, col).
            (nome, case col of Num xs \<Rightarrow> Num (map round2 xs) | Obj ys \<Rightarrow> Obj ys)) df \<and>
   list_all (\<lambda>(nome, col).
               case col of Num xs \<Rightarrow> list_all (\<lambda>v. round2 v = v) xs | Obj ys \<Rightarrow> True)
     (snd (montar_contexto_dashboard W df l c dj tf))"
proof -
  have r: "round_coluna col = (case col of Num xs \<Rightarrow> Num (map round2 xs) | Obj ys \<Rightarrow> Obj ys)"
    for col by (cases col) simp_all
  have a: "snd (montar_contexto_dashboard W df l c dj tf) =
     map (\<lambda>(nome, col).
            (nome, case col of Num xs \<Rightarrow> Num (map round2 xs) | Obj ys \<Rightarrow> Obj ys)) df"
    by (simp add: montar_df arredondar_map r)
  have "list_all (\<lambda>(nome, col).
               case col of Num xs \<Rightarrow> list_all (\<lambda>v. round2 v = v) xs | Obj ys \<Rightarrow> True)
     (map (\<lambda>(nome, col).
            (nome, case col of Num xs \<Rightarrow> Num (map round2 xs) | Obj ys \<Rightarrow> Obj ys)) df)"
    by (auto simp: list_all_iff round2_idem split: coluna.splits)
  with a show ?thesis by simp
qed

lemma round_half_even_exemplos:
  "round_half_even (30001 / 2) = 15000" "round_half_even (200 / 3) = 67"
  by (simp_all add: round_half_even_def Let_def floor_rat_numeral)

theorem montar_arredonda_no_lugar_witness:
  "snd (montar_contexto_dashboard mundo_exemplo df_final_exemplo [] None None None) =
    [(str ''Assessor'', Obj [str ''A1'', str ''A2'']),
     (valor_total_assessor, Num [Finite 150, Finite (67 / 100)])]"
  using montar_arredonda_no_lugar[of mundo_exemplo df_final_exemplo "[]" None None None]
  by (simp add: df_final_exemplo_def round_half_even_exemplos)

section \<open>The local download\<close>

lemma OUTPUT_FILES_chaves:
  "map fst (OUTPUT_FILES W) =
    [str ''df_final'', str ''df_juntar'', str ''pj1'', str ''seg'', str ''cam'', str ''co_ter'',
     str ''co_xpvp'', str ''cre'', str ''xpcs'', str ''lan_man'', str ''tim_rep'', str ''lan_pro'']"
  by (simp add: OUTPUT_FILES_def todas_chaves_def)

text \<open>
  C10. For a name that is not one of the twelve keys of \<open>OUTPUT_FILES\<close> the route sends no
  file and redirects to the index page with its message; a file that the route sends is the
  path that \<open>OUTPUT_FILES\<close>, which does not depend on the request, gives the name, and it
  exists on disk.
\<close>

theorem download_excel_restrito:
  "(nome \<notin> set (map fst (OUTPUT_FILES W)) \<longrightarrow>
      download_excel W nome = (Redirect_index, [msg_download_local])) \<and>
   (download_excel W nome = (Send_file path, fl) \<longrightarrow>
      (nome, path) \<in> set (OUTPUT_FILES W) \<and> existe W path) \<and>
   length (OUTPUT_FILES W) = 12"
proof -
  have a: "nome \<notin> set (map fst (OUTPUT_FILES W)) \<Longrightarrow>
      download_excel W nome = (Redirect_index, [msg_download_local])"
    by (simp add: download_excel_def map_of_eq_None_iff[THEN iffD2])
  have b: "download_excel W nome = (Send_file path, fl) \<Longrightarrow>
      (nome, path) \<in> set (OUTPUT_FILES W) \<and> existe W path"
    by (auto simp: download_excel_def split: option.splits if_splits dest: map_of_SomeD)
  have d: "length (OUTPUT_FILES W) = 12"
    by (simp add: OUTPUT_FILES_def todas_chaves_def)
  from a b d show ?thesis by blast
qed

lemma OUTPUT_DIR_exemplo: "OUTPUT_DIR mundo_exemplo = str ''/tmp/outputs''"
  by (simp add: OUTPUT_DIR_def mundo_exemplo_def)

lemma passwd_fora: "str ''../../etc/passwd'' \<notin> set (map fst (OUTPUT_FILES mundo_exemplo))"
  unfolding OUTPUT_FILES_chaves by (simp add: str_def)

lemma download_df_final:
  "download_excel mundo_exemplo (str ''df_final'') =
    (Send_file (str ''/tmp/outputs/df_final.xlsx''), [])"
proof -
  have "saida mundo_exemplo (str ''df_final'') = str ''/tmp/outputs/df_final.xlsx''"
    by (simp add: saida_def OUTPUT_DIR_exemplo path_join_def str_def)
  moreover have "existe mundo_exemplo (str ''/tmp/outputs/df_final.xlsx'')"
    by (simp add: mundo_exemplo_def)
  moreover have "str ''/tmp/outputs/df_final.xlsx'' \<noteq> []"
    by (simp add: str_def)
  ultimately show ?thesis
    by (simp add: download_excel_def OUTPUT_FILES_def)
qed

theorem download_excel_restrito_witness:
  "download_excel mundo_exemplo (str ''../../etc/passwd'') =
     (Redirect_index, [msg_download_local]) \<and>
   (str ''df_final'', str ''/tmp/outputs/df_final.xlsx'') \<in> set (OUTPUT_FILES mundo_exemplo) \<and>
   existe mundo_exemplo (str ''/tmp/outputs/df_final.xlsx'')"
  using download_excel_restrito[of "str ''../../etc/passwd''" mundo_exemplo]
    download_excel_restrito[of "str ''df_final''" mundo_exemplo
      "str ''/tmp/outputs/df_final.xlsx''" "[]"]
    passwd_fora download_df_final
  by blast

section \<open>Missing sources\<close>

lemma classificar_faltando:
  "snd (classificar_arquivos P files) =
    filter (\<lambda>k. fst (classificar_arquivos P files) k = None) todas_chaves"
  by (simp add: classificar_arquivos_def Let_def)






lemma chave_exemplos:
  "chave_do_nome (lower_ascii (str ''Base.xlsx'')) = None"
  "chave_do_nome (lower_ascii (str ''Seguro.xlsx'')) = Some Seg"
  "chave_do_nome (lower_ascii (str ''Cambio.xlsx'')) = Some Cam"
  "chave_do_nome (lower_ascii (str ''Terceiras.xlsx'')) = Some Co_ter"
  "chave_do_nome (lower_ascii (str ''XPVP.xlsx'')) = Some Co_xpvp"
  "chave_do_nome (lower_ascii (str ''Credito.xlsx'')) = Some Cre"
  "chave_do_nome (lower_ascii (str ''XPCS.xlsx'')) = Some Xpcs"
  "chave_do_nome (lower_ascii (str ''Lancamentos Manuais.xlsx'')) = Some Lan_man"
  "chave_do_nome (lower_ascii (str ''Times e Repasses.xlsx'')) = Some Tim_rep"
  "chave_do_nome (lower_ascii (str ''Lancamento de Produtos.xlsx'')) = Some Lan_pro"
  by (simp_all add: chave_do_nome_def kws str_def lower_ascii_def)

lemma base_pj1:
  assumes "arq ''Base.xlsx'' 0 \<in> set files"
  shows "fst (classificar_arquivos py_ascii files) Pj1 \<noteq> None"
proof -
  have "arq ''Base.xlsx'' 0 \<in> set (nao_usados py_ascii files)"
    using assms by (intro sem_palavra_nao_usado) (simp_all add: nome_de_arq chave_exemplos)
  then show ?thesis by (auto simp: classificar_pj1 split: list.splits)
qed


lemma faltando_dez: "snd (classificar_arquivos py_ascii dez_arquivos) = []"
proof -
  have "fst (classificar_arquivos py_ascii dez_arquivos) Pj1 \<noteq> None"
    by (rule base_pj1) (simp add: dez_arquivos_def)
  then show ?thesis
    by (simp add: classificar_faltando todas_chaves_def classificar_slots)
      (simp add: dez_arquivos_def nome_de_arq chave_exemplos)
qed






end
